theory Spec2Isabelle
  imports Main "HOL-Library.Char_ord" "HOL-Library.List_Lexorder" "HOL-Library.Word"
begin

section \<open>Python values used by \<open>linux.py\<close>\<close>

text \<open>
  A Python \<open>str\<close> is modelled as a \<open>string\<close>; a \<open>char\<close> stands for one code point
  below 256 (the Latin-1 range), so \<open>(=)\<close> is Python's \<open>==\<close> and the lexicographic
  order on \<open>char list\<close> is the order Python's \<open>sorted\<close> uses on \<open>str\<close>.
\<close>

text \<open>
  \<open>str.isspace\<close> for one code point, on the code points below 256: TAB, LF, VT, FF, CR,
  the four separators FS, GS, RS, US, the space, NEL (0x85) and the no-break space (0xA0).
\<close>

definition isspace :: "char \<Rightarrow> bool" where
  "isspace c = (of_char c \<in> {9, 10, 11, 12, 13, 28, 29, 30, 31, 32, 133, 160 :: nat})"

text \<open>
  \<open>str.split()\<close> without arguments: skip a run of whitespace, take the run of
  non-whitespace that follows as one token, repeat. No token is empty.
\<close>

function str_split :: "string \<Rightarrow> string list" where
  "str_split s =
     (let s' = dropWhile isspace s
      in if s' = [] then []
         else takeWhile (\<lambda>c. \<not> isspace c) s' # str_split (dropWhile (\<lambda>c. \<not> isspace c) s'))"
  by pat_completeness auto
termination
proof (relation "measure length")
  show "wf (measure length)" by simp
next
  fix s s' :: string
  assume s': "s' = dropWhile isspace s" and ne: "s' \<noteq> []"
  from ne obtain c cs where c: "s' = c # cs" by (cases s') auto
  with s' have "\<not> isspace c" by (metis hd_dropWhile list.sel(1) ne)
  with c have "dropWhile (\<lambda>c. \<not> isspace c) s' = dropWhile (\<lambda>c. \<not> isspace c) cs" by simp
  then have "length (dropWhile (\<lambda>c. \<not> isspace c) s') \<le> length cs"
    by (simp add: length_dropWhile_le)
  also have "length cs < length s'" using c by simp
  also have "length s' \<le> length s" using s' by (simp add: length_dropWhile_le)
  finally show "(dropWhile (\<lambda>c. \<not> isspace c) s', s) \<in> measure length" by simp
qed

declare str_split.simps [simp del]

text \<open>\<open>str.strip()\<close> without arguments: whitespace removed at both ends.\<close>

definition str_strip :: "string \<Rightarrow> string" where
  "str_strip s = rev (dropWhile isspace (rev (dropWhile isspace s)))"

text \<open>
  Exceptions are values: the class, as far as the handlers of the program tell classes
  apart, and the text that \<open>str(e)\<close> gives. \<open>OtherError\<close> stands for every other
  subclass of \<open>Exception\<close> (\<open>OSError\<close>, \<open>ValueError\<close>, \<open>UnicodeDecodeError\<close>,
  ...); \<open>KeyboardInterrupt\<close> and \<open>SystemExit\<close> derive from \<open>BaseException\<close> only.
\<close>

datatype exn_class =
  TimeoutExpired | PermissionError | IndexError | OtherError | KeyboardInterrupt | SystemExit

text \<open>\<open>issubclass(k, Exception)\<close>: what \<open>except Exception\<close> catches.\<close>

fun is_Exception :: "exn_class \<Rightarrow> bool" where
  "is_Exception KeyboardInterrupt = False"
| "is_Exception SystemExit = False"
| "is_Exception k = True"

datatype py_exception = Raise exn_class string

fun exn_class_of :: "py_exception \<Rightarrow> exn_class" where
  "exn_class_of (Raise k m) = k"

fun str :: "py_exception \<Rightarrow> string" where
  "str (Raise k m) = m"

text \<open>\<open>xs[0]\<close> on a Python list.\<close>

definition index0 :: "'a list \<Rightarrow> py_exception + 'a" where
  "index0 xs = (case xs of [] \<Rightarrow> Inl (Raise IndexError ''list index out of range'') | x # _ \<Rightarrow> Inr x)"

section \<open>The host: subprocesses\<close>

text \<open>
  \<open>subprocess.CompletedProcess\<close>, with the three fields the program reads.
\<close>

record completed_process =
  returncode :: int
  stdout :: string
  stderr :: string

text \<open>
  What \<open>subprocess.run(cmd, shell=True, capture_output=True, text=True, timeout=t)\<close>
  does is decided by the host, so it is a parameter of the model: from the state of the
  world, the command line and the timeout it gives either the exception raised or the
  completed process, and the world afterwards.
\<close>

type_synonym ('w, 't) shell = "'w \<Rightarrow> string \<Rightarrow> 't \<Rightarrow> (py_exception + completed_process) \<times> 'w"

text \<open>
  The state threaded through the program: the world, and the log of every subprocess
  spawned so far (command line and timeout), oldest first.
\<close>

record ('w, 't) host =
  world :: 'w
  spawned :: "(string \<times> 't) list"

definition subprocess_run ::
  "('w, 't) shell \<Rightarrow> string \<Rightarrow> 't \<Rightarrow> ('w, 't) host
    \<Rightarrow> (py_exception + completed_process) \<times> ('w, 't) host" where
  "subprocess_run sh cmd t h =
     (case sh (world h) cmd t of
        (r, w') \<Rightarrow> (r, \<lparr>world = w', spawned = spawned h @ [(cmd, t)]\<rparr>))"

section \<open>The host: processes and text mode\<close>







section \<open>\<open>run_command_safe\<close>\<close>

definition dangerous_commands :: "string list" where
  "dangerous_commands =
     [''rm'', ''rmdir'', ''del'', ''format'', ''fdisk'', ''mkfs'',
      ''dd'', ''shred'', ''wipe'', ''halt'', ''shutdown'', ''reboot'',
      ''init'', ''kill'', ''killall'', ''pkill'', ''fuser'']"

definition safe_commands :: "string \<rightharpoonup> string" where
  "safe_commands =
     map_of
       [(''ls'', ''ls -la''),
        (''ps'', ''ps aux''),
        (''df'', ''df -h''),
        (''du'', ''du -h --max-depth=1''),
        (''free'', ''free -h''),
        (''top'', ''top -b -n1''),
        (''netstat'', ''netstat -tuln''),
        (''ss'', ''ss -tuln'')]"

text \<open>
  The result of \<open>run_command_safe\<close> is the tuple \<open>(success, stdout, stderr)\<close>.
\<close>

type_synonym run_result = "bool \<times> string \<times> string"

text \<open>
  Lines 147-148: the command line is replaced by the entry of \<open>safe_commands\<close> when
  \<open>base_cmd\<close> is a key of it and the whole command line equals \<open>base_cmd\<close>.
\<close>

definition add_safe_flags :: "string \<Rightarrow> string \<Rightarrow> string" where
  "add_safe_flags base_cmd command =
     (case safe_commands base_cmd of
        Some safe \<Rightarrow> if command = base_cmd then safe else command
      | None \<Rightarrow> command)"

text \<open>The body of the \<open>try\<close> block: it returns a tuple or raises.\<close>

definition run_command_try ::
  "('w, 't) shell \<Rightarrow> string \<Rightarrow> 't \<Rightarrow> ('w, 't) host
    \<Rightarrow> (py_exception + run_result) \<times> ('w, 't) host" where
  "run_command_try sh command timeout h =
     (case index0 (str_split command) of
        Inl e \<Rightarrow> (Inl e, h)
      | Inr base_cmd \<Rightarrow>
          if base_cmd \<in> set dangerous_commands
          then (Inr (False, ''Command blocked for safety reasons'', ''''), h)
          else (case subprocess_run sh (add_safe_flags base_cmd command) timeout h of
                  (Inl e, h') \<Rightarrow> (Inl e, h')
                | (Inr result, h') \<Rightarrow> (Inr (True, stdout result, stderr result), h')))"

text \<open>
  The function with its two handlers: \<open>except subprocess.TimeoutExpired\<close> first, then
  \<open>except Exception as e\<close>. An exception that neither handler catches leaves the
  function.
\<close>

definition run_command_safe ::
  "('w, 't) shell \<Rightarrow> string \<Rightarrow> 't \<Rightarrow> ('w, 't) host
    \<Rightarrow> (py_exception + run_result) \<times> ('w, 't) host" where
  "run_command_safe sh command timeout h =
     (case run_command_try sh command timeout h of
        (Inr r, h') \<Rightarrow> (Inr r, h')
      | (Inl e, h') \<Rightarrow>
          if exn_class_of e = TimeoutExpired
          then (Inr (False, '''', ''Command timed out''), h')
          else if is_Exception (exn_class_of e)
          then (Inr (False, '''', ''Error: '' @ str e), h')
          else (Inl e, h'))"

text \<open>
  The names the specification gives to the shapes of the tuple: \<open>Ok(stdout, stderr)\<close>,
  \<open>Refused(reason)\<close> and \<open>Failed(message)\<close>.
\<close>

definition Ok :: "string \<Rightarrow> string \<Rightarrow> run_result" where
  "Ok out err = (True, out, err)"

definition Refused :: "string \<Rightarrow> run_result" where
  "Refused reason = (False, reason, '''')"

definition Failed :: "string \<Rightarrow> run_result" where
  "Failed message = (False, '''', message)"

section \<open>\<open>get_command_help\<close>\<close>

definition help_options :: "string list" where
  "help_options = [''--help'', ''-h'', ''help'']"

text \<open>
  The loop over \<open>help_options\<close>. An attempt that raises something that
  \<open>except (subprocess.TimeoutExpired, Exception)\<close> catches is skipped by
  \<open>continue\<close>; any other exception leaves the function. An attempt that completes
  returns from the function at the \<open>if\<close> or the \<open>elif\<close>, or falls through to the
  next option. The timeout is the literal 5.
\<close>

fun help_loop ::
  "('w, 't::numeral) shell \<Rightarrow> string \<Rightarrow> string list \<Rightarrow> ('w, 't) host
    \<Rightarrow> (py_exception + string) \<times> ('w, 't) host" where
  "help_loop sh command [] h = (Inr ''No help information available'', h)"
| "help_loop sh command (help_opt # rest) h =
     (let cmd = (if help_opt = ''help'' then ''help '' @ command
                 else command @ '' '' @ help_opt)
      in case subprocess_run sh cmd 5 h of
           (Inl e, h') \<Rightarrow>
             if exn_class_of e = TimeoutExpired \<or> is_Exception (exn_class_of e)
             then help_loop sh command rest h'
             else (Inl e, h')
         | (Inr result, h') \<Rightarrow>
             if returncode result = 0 \<and> str_strip (stdout result) \<noteq> []
             then (Inr (stdout result), h')
             else if str_strip (stderr result) \<noteq> []
             then (Inr (stderr result), h')
             else help_loop sh command rest h')"

definition get_command_help ::
  "('w, 't::numeral) shell \<Rightarrow> string \<Rightarrow> ('w, 't) host
    \<Rightarrow> (py_exception + string) \<times> ('w, 't) host" where
  "get_command_help sh command h = help_loop sh command help_options h"

section \<open>The host: the file system\<close>

text \<open>
  The four calls \<open>get_bin_commands\<close> makes, as one snapshot of the file system:
  \<open>os.path.exists\<close>, \<open>os.listdir\<close> (which may raise), \<open>os.path.isfile\<close> and
  \<open>os.access(path, os.X_OK)\<close>.
\<close>

record filesystem =
  path_exists :: "string \<Rightarrow> bool"
  listdir :: "string \<Rightarrow> py_exception + string list"
  isfile :: "string \<Rightarrow> bool"
  access_x :: "string \<Rightarrow> bool"

text \<open>\<open>os.path.join(a, b)\<close> of \<open>posixpath\<close>, for two components.\<close>

definition path_join :: "string \<Rightarrow> string \<Rightarrow> string" where
  "path_join a b =
     (if take 1 b = ''/'' then b
      else if a = [] \<or> drop (length a - 1) a = ''/'' then a @ b
      else a @ ''/'' @ b)"

section \<open>\<open>get_bin_commands\<close>\<close>

definition bin_paths :: "string list" where
  "bin_paths = [''/bin'', ''/usr/bin'', ''/usr/local/bin'', ''/sbin'', ''/usr/sbin'']"

text \<open>The inner loop over the entries of one directory (lines 83-86).\<close>

definition add_items :: "filesystem \<Rightarrow> string \<Rightarrow> string list \<Rightarrow> string set \<Rightarrow> string set" where
  "add_items fs bin_path items commands =
     fold (\<lambda>item cs.
             if isfile fs (path_join bin_path item) \<and> access_x fs (path_join bin_path item)
             then insert item cs else cs)
          items commands"

text \<open>
  The outer loop (lines 80-88). The \<open>try\<close> has the single handler
  \<open>except PermissionError: continue\<close>; an exception of any other class leaves the
  function.
\<close>

fun scan_bin_paths :: "filesystem \<Rightarrow> string list \<Rightarrow> string set \<Rightarrow> py_exception + string set" where
  "scan_bin_paths fs [] commands = Inr commands"
| "scan_bin_paths fs (bin_path # rest) commands =
     (if path_exists fs bin_path
      then (case listdir fs bin_path of
              Inr items \<Rightarrow> scan_bin_paths fs rest (add_items fs bin_path items commands)
            | Inl e \<Rightarrow>
                if exn_class_of e = PermissionError
                then scan_bin_paths fs rest commands
                else Inl e)
      else scan_bin_paths fs rest commands)"

definition get_bin_commands :: "filesystem \<Rightarrow> py_exception + string list" where
  "get_bin_commands fs =
     (case scan_bin_paths fs bin_paths {} of
        Inl e \<Rightarrow> Inl e
      | Inr commands \<Rightarrow> Inr (sorted_list_of_set commands))"

section \<open>Example hosts\<close>

text \<open>
  A host for the concrete runs below. Its world is the number of subprocesses run so
  far. \<open>sleep 60\<close> outlives every timeout, a command line holding a NUL cannot be
  spawned, \<open>false\<close> exits with status 1, an unknown program makes the shell exit
  with status 127, and \<open>command kill -INT $PPID\<close> has the shell send SIGINT to the
  Python process that waits for it.
\<close>

definition demo_shell :: "(nat, int) shell" where
  "demo_shell w cmd t =
     (if cmd = ''sleep 60''
      then (Inl (Raise TimeoutExpired ''Command 'sleep 60' timed out''), Suc w)
      else if cmd = [CHR 0x00]
      then (Inl (Raise OtherError ''embedded null byte''), w)
      else if cmd = ''command kill -INT $PPID''
      then (Inl (Raise KeyboardInterrupt ''''), Suc w)
      else if cmd = ''ls -la''
      then (Inr \<lparr>returncode = 0, stdout = ''total 0'', stderr = ''''\<rparr>, Suc w)
      else if cmd = ''ls -1''
      then (Inr \<lparr>returncode = 0, stdout = ''a'', stderr = ''''\<rparr>, Suc w)
      else if cmd = ''echo rm''
      then (Inr \<lparr>returncode = 0, stdout = ''rm'', stderr = ''''\<rparr>, Suc w)
      else if cmd = ''false''
      then (Inr \<lparr>returncode = 1, stdout = '''', stderr = ''''\<rparr>, Suc w)
      else (Inr \<lparr>returncode = 127, stdout = '''', stderr = ''sh: not found''\<rparr>, Suc w))"

definition demo_host :: "(nat, int) host" where
  "demo_host = \<lparr>world = 0, spawned = []\<rparr>"



text \<open>
  A host for \<open>get_command_help\<close>: \<open>tool\<close> rejects \<open>--help\<close> on stderr with exit
  status 2 and prints its usage for \<open>-h\<close>; \<open>quiet\<close> prints nothing for any flag;
  \<open>slow\<close> never answers in time; the process is interrupted while \<open>stuck -h\<close> runs.
\<close>

definition help_shell :: "(nat, int) shell" where
  "help_shell w cmd t =
     (if cmd = ''tool --help''
      then (Inr \<lparr>returncode = 2, stdout = '''', stderr = ''tool: bad option --help''\<rparr>, Suc w)
      else if cmd = ''tool -h''
      then (Inr \<lparr>returncode = 0, stdout = ''usage: tool [-h]'', stderr = ''''\<rparr>, Suc w)
      else if cmd = ''slow --help'' \<or> cmd = ''slow -h''
      then (Inl (Raise TimeoutExpired ''timed out after 5 seconds''), Suc w)
      else if cmd = ''help slow''
      then (Inr \<lparr>returncode = 0, stdout = ''slow: usage'', stderr = ''''\<rparr>, Suc w)
      else if cmd = ''stuck -h''
      then (Inl (Raise KeyboardInterrupt ''''), Suc w)
      else (Inr \<lparr>returncode = 0, stdout = '''', stderr = ''''\<rparr>, Suc w))"

text \<open>
  Two file systems. In \<open>demo_fs\<close>, \<open>/bin\<close> and \<open>/usr/bin\<close> can be listed,
  \<open>/sbin\<close> exists but listing it is denied, the other two directories do not exist,
  and \<open>/bin/README\<close> is not executable. In \<open>notdir_fs\<close>, \<open>/bin\<close> is a regular
  file, so \<open>os.listdir\<close> raises \<open>NotADirectoryError\<close>.
\<close>

definition demo_fs :: filesystem where
  "demo_fs =
     \<lparr>path_exists = (\<lambda>p. p = ''/bin'' \<or> p = ''/usr/bin'' \<or> p = ''/sbin''),
      listdir = (\<lambda>p. if p = ''/bin'' then Inr [''ls'', ''cat'', ''README'']
                      else if p = ''/usr/bin'' then Inr [''ls'', ''awk'']
                      else Inl (Raise PermissionError ''[Errno 13] Permission denied'')),
      isfile = (\<lambda>p. True),
      access_x = (\<lambda>p. p \<noteq> ''/bin/README'')\<rparr>"

definition notdir_fs :: filesystem where
  "notdir_fs =
     \<lparr>path_exists = (\<lambda>p. p = ''/bin''),
      listdir = (\<lambda>p. Inl (Raise OtherError ''[Errno 20] Not a directory'')),
      isfile = (\<lambda>p. p = ''/bin''),
      access_x = (\<lambda>p. False)\<rparr>"

text \<open>In \<open>denied_fs\<close> every directory exists and none may be listed.\<close>

definition denied_fs :: filesystem where
  "denied_fs =
     \<lparr>path_exists = (\<lambda>p. True),
      listdir = (\<lambda>p. Inl (Raise PermissionError ''[Errno 13] Permission denied'')),
      isfile = (\<lambda>p. False),
      access_x = (\<lambda>p. False)\<rparr>"

section \<open>The help lookup as the specification words it\<close>

text \<open>
  The outcomes of running the given command lines one after the other, each under the
  timeout 5.
\<close>

fun attempt_outcomes ::
  "('w, 't::numeral) shell \<Rightarrow> string list \<Rightarrow> ('w, 't) host
    \<Rightarrow> (py_exception + completed_process) list" where
  "attempt_outcomes sh [] h = []"
| "attempt_outcomes sh (cmd # cmds) h =
     (case subprocess_run sh cmd 5 h of (r, h') \<Rightarrow> r # attempt_outcomes sh cmds h')"

text \<open>The text an attempt captured on one stream; none when the attempt raised.\<close>

definition captured ::
  "(completed_process \<Rightarrow> string) \<Rightarrow> py_exception + completed_process \<Rightarrow> string" where
  "captured field r = (case r of Inl e \<Rightarrow> [] | Inr result \<Rightarrow> field result)"

text \<open>
  \<open>getHelp\<close> in the words of the specification: the first attempt whose captured stdout
  is non-empty, else the first non-empty stderr, else the fixed message.
\<close>

definition getHelp_spec :: "('w, 't::numeral) shell \<Rightarrow> string \<Rightarrow> ('w, 't) host \<Rightarrow> string" where
  "getHelp_spec sh command h =
     (let rs = attempt_outcomes sh
                 [command @ '' --help'', command @ '' -h'', ''help '' @ command] h
      in case filter (\<lambda>s. s \<noteq> []) (map (captured stdout) rs) of
           out # _ \<Rightarrow> out
         | [] \<Rightarrow> (case filter (\<lambda>s. s \<noteq> []) (map (captured stderr) rs) of
                    err # _ \<Rightarrow> err
                  | [] \<Rightarrow> ''No help information available''))"

text \<open>
  What one attempt decides in the program: the stdout of a run that exited with status 0
  and printed something other than whitespace, else its stderr if that holds something
  other than whitespace; a run that raised an exception of class \<open>Exception\<close> decides
  nothing, and any other exception ends the lookup.
\<close>

definition help_answer ::
  "py_exception + completed_process \<Rightarrow> (py_exception + string) option" where
  "help_answer r =
     (case r of
        Inl e \<Rightarrow>
          if exn_class_of e = TimeoutExpired \<or> is_Exception (exn_class_of e) then None
          else Some (Inl e)
      | Inr result \<Rightarrow>
          if returncode result = 0 \<and> str_strip (stdout result) \<noteq> []
          then Some (Inr (stdout result))
          else if str_strip (stderr result) \<noteq> [] then Some (Inr (stderr result))
          else None)"

section \<open>Splitting\<close>

lemma str_split_blank:
  assumes "list_all isspace s"
  shows "str_split s = []"
proof -
  from assms have "dropWhile isspace s = []"
    by (simp add: list_all_iff)
  then show ?thesis
    by (subst str_split.simps) simp
qed

lemma str_split_Nil_iff: "str_split s = [] \<longleftrightarrow> list_all isspace s"
proof
  assume "str_split s = []"
  then have "dropWhile isspace s = []"
    by (subst (asm) str_split.simps) (simp add: Let_def split: if_splits)
  then show "list_all isspace s"
    by (simp add: list_all_iff)
next
  assume "list_all isspace s"
  then show "str_split s = []" by (rule str_split_blank)
qed

text \<open>A name without whitespace is one token, also when arguments follow a space.\<close>

lemma str_split_token:
  assumes "name \<noteq> []" and "list_all (\<lambda>c. \<not> isspace c) name"
  shows "str_split name = [name]"
    and "str_split (name @ CHR '' '' # args) = name # str_split args"
proof -
  have sp: "isspace CHR '' ''" by (simp add: isspace_def)
  from assms obtain c cs where n: "name = c # cs" and c: "\<not> isspace c"
    by (cases name) auto
  have all: "\<forall>x\<in>set name. \<not> isspace x" using assms(2) by (simp add: list_all_iff)
  have tw: "takeWhile (\<lambda>c. \<not> isspace c) name = name" using all by simp
  have dw: "dropWhile (\<lambda>c. \<not> isspace c) name = []" using all by simp
  have d0: "dropWhile isspace name = name" using n c by simp
  show "str_split name = [name]"
    using assms(1) by (subst str_split.simps, simp add: d0 tw dw Let_def, subst str_split.simps, simp)
  have d1: "dropWhile isspace (name @ CHR '' '' # args) = name @ CHR '' '' # args"
    using n c by simp
  have tw1: "takeWhile (\<lambda>c. \<not> isspace c) (name @ CHR '' '' # args) = name"
    using all sp by (simp add: takeWhile_append2)
  have dw1: "dropWhile (\<lambda>c. \<not> isspace c) (name @ CHR '' '' # args) = CHR '' '' # args"
    using all sp by (simp add: dropWhile_append2)
  have s1: "str_split (CHR '' '' # args) = str_split args"
    using sp by (subst str_split.simps, subst (2) str_split.simps, simp)
  show "str_split (name @ CHR '' '' # args) = name # str_split args"
    by (subst str_split.simps) (simp add: d1 tw1 dw1 s1 Let_def del: append.simps)
qed

lemma index0_blank:
  "list_all isspace command \<Longrightarrow>
     index0 (str_split command) = Inl (Raise IndexError ''list index out of range'')"
  by (simp add: str_split_blank index0_def)

lemma index0_Inl:
  "index0 xs = Inl e \<longleftrightarrow> xs = [] \<and> e = Raise IndexError ''list index out of range''"
  by (auto simp: index0_def split: list.splits)

section \<open>The two tables\<close>

lemma dangerous_names_plain:
  "name \<in> set dangerous_commands \<Longrightarrow> name \<noteq> [] \<and> list_all (\<lambda>c. \<not> isspace c) name"
  by (auto simp: dangerous_commands_def isspace_def)

lemma safe_commands_not_dangerous:
  "safe_commands name = Some safe \<Longrightarrow> name \<notin> set dangerous_commands \<and> safe \<noteq> name"
  by (auto simp: safe_commands_def dangerous_commands_def split: if_splits)

section \<open>The paths through \<open>run_command_safe\<close>\<close>

lemma run_blank:
  assumes "index0 (str_split command) = Inl e"
  shows "run_command_safe sh command timeout h
           = (Inr (False, '''', ''Error: list index out of range''), h)"
proof -
  from assms have "e = Raise IndexError ''list index out of range''"
    by (simp add: index0_Inl)
  with assms show ?thesis
    by (simp add: run_command_safe_def run_command_try_def)
qed

lemma run_refused:
  "index0 (str_split command) = Inr base_cmd \<Longrightarrow> base_cmd \<in> set dangerous_commands \<Longrightarrow>
     run_command_safe sh command timeout h
       = (Inr (False, ''Command blocked for safety reasons'', ''''), h)"
  by (simp add: run_command_safe_def run_command_try_def)

lemma run_spawned:
  assumes "index0 (str_split command) = Inr base_cmd" and "base_cmd \<notin> set dangerous_commands"
  shows "run_command_safe sh command timeout h =
           ((case fst (sh (world h) (add_safe_flags base_cmd command) timeout) of
               Inr result \<Rightarrow> Inr (True, stdout result, stderr result)
             | Inl e \<Rightarrow> if exn_class_of e = TimeoutExpired
                        then Inr (False, '''', ''Command timed out'')
                        else if is_Exception (exn_class_of e)
                        then Inr (False, '''', ''Error: '' @ str e)
                        else Inl e),
            \<lparr>world = snd (sh (world h) (add_safe_flags base_cmd command) timeout),
             spawned = spawned h @ [(add_safe_flags base_cmd command, timeout)]\<rparr>)"
proof (cases "sh (world h) (add_safe_flags base_cmd command) timeout")
  case (Pair r w')
  show ?thesis
  proof (cases r)
    case (Inl e)
    with Pair assms show ?thesis
      by (simp add: run_command_safe_def run_command_try_def subprocess_run_def)
  next
    case (Inr result)
    with Pair assms show ?thesis
      by (simp add: run_command_safe_def run_command_try_def subprocess_run_def)
  qed
qed

section \<open>Scanning the directories\<close>

lemma add_items_eq:
  "add_items fs d items commands
     = commands \<union> {item \<in> set items. isfile fs (path_join d item) \<and> access_x fs (path_join d item)}"
  unfolding add_items_def
  by (induction items arbitrary: commands) auto

lemma scan_bin_paths_Inr:
  "scan_bin_paths fs ds commands = Inr res \<Longrightarrow>
     res = commands \<union> {name. \<exists>d \<in> set ds. \<exists>items. path_exists fs d \<and> listdir fs d = Inr items
                 \<and> name \<in> set items \<and> isfile fs (path_join d name) \<and> access_x fs (path_join d name)}"
proof (induction ds arbitrary: commands)
  case Nil
  then show ?case by simp
next
  case (Cons d ds)
  show ?case
  proof (cases "path_exists fs d")
    case False
    with Cons.prems have "scan_bin_paths fs ds commands = Inr res" by simp
    from Cons.IH [OF this] False show ?thesis by auto
  next
    case True
    show ?thesis
    proof (cases "listdir fs d")
      case (Inl e)
      with True Cons.prems have "scan_bin_paths fs ds commands = Inr res"
        by (simp split: if_splits)
      from Cons.IH [OF this] Inl show ?thesis by auto
    next
      case (Inr items)
      with True Cons.prems have "scan_bin_paths fs ds (add_items fs d items commands) = Inr res"
        by simp
      from Cons.IH [OF this] True Inr show ?thesis
        by (auto simp: add_items_eq)
    qed
  qed
qed

lemma scan_bin_paths_finite:
  "scan_bin_paths fs ds commands = Inr res \<Longrightarrow> finite commands \<Longrightarrow> finite res"
proof (induction ds arbitrary: commands)
  case Nil
  then show ?case by simp
next
  case (Cons d ds)
  have fin: "finite (add_items fs d items commands)" for items
    using Cons.prems(2) by (simp add: add_items_eq)
  from Cons.prems(1) show ?case
    by (auto simp: fin Cons.prems(2) split: if_splits sum.splits intro: Cons.IH)
qed

lemma scan_bin_paths_total:
  assumes "\<forall>d \<in> set ds. \<forall>e. path_exists fs d \<and> listdir fs d = Inl e
             \<longrightarrow> exn_class_of e = PermissionError"
  shows "\<exists>res. scan_bin_paths fs ds commands = Inr res"
  using assms
proof (induction ds arbitrary: commands)
  case Nil
  then show ?case by simp
next
  case (Cons d ds)
  then have IH: "\<exists>res. scan_bin_paths fs ds cs = Inr res" for cs by simp
  from Cons.prems show ?case
    by (cases "listdir fs d") (simp_all add: IH)
qed

section \<open>The help loop\<close>

lemma help_loop_answer:
  "fst (help_loop sh command opts h)
     = (case List.map_filter help_answer
              (attempt_outcomes sh
                 (map (\<lambda>opt. if opt = ''help'' then ''help '' @ command
                             else command @ '' '' @ opt) opts) h) of
          [] \<Rightarrow> Inr ''No help information available''
        | answer # _ \<Rightarrow> answer)"
proof (induction opts arbitrary: h)
  case Nil
  show ?case by (simp add: List.map_filter_simps)
next
  case (Cons opt opts)
  let ?cmd = "if opt = ''help'' then ''help '' @ command else command @ '' '' @ opt"
  obtain r h' where run: "subprocess_run sh ?cmd 5 h = (r, h')"
    by (cases "subprocess_run sh ?cmd 5 h")
  show ?case
  proof (cases r)
    case (Inl e)
    with run Cons.IH [of h'] show ?thesis
      by (simp add: List.map_filter_simps help_answer_def)
  next
    case (Inr result)
    with run Cons.IH [of h'] show ?thesis
      by (simp add: List.map_filter_simps help_answer_def)
  qed
qed

lemma help_loop_spawned:
  "spawned (snd (help_loop sh command opts h))
     = spawned h @ map (\<lambda>cmd. (cmd, 5))
         (take (Suc (length (takeWhile (\<lambda>r. help_answer r = None)
                  (attempt_outcomes sh
                     (map (\<lambda>opt. if opt = ''help'' then ''help '' @ command
                                 else command @ '' '' @ opt) opts) h))))
            (map (\<lambda>opt. if opt = ''help'' then ''help '' @ command
                        else command @ '' '' @ opt) opts))"
proof (induction opts arbitrary: h)
  case Nil
  show ?case by simp
next
  case (Cons opt opts)
  let ?cmd = "if opt = ''help'' then ''help '' @ command else command @ '' '' @ opt"
  obtain r h' where run: "subprocess_run sh ?cmd 5 h = (r, h')"
    by (cases "subprocess_run sh ?cmd 5 h")
  then have sp: "spawned h' = spawned h @ [(?cmd, 5)]"
    by (auto simp: subprocess_run_def split: prod.splits)
  show ?case
  proof (cases r)
    case (Inl e)
    with run sp Cons.IH [of h'] show ?thesis
      by (simp add: help_answer_def)
  next
    case (Inr result)
    with run sp Cons.IH [of h'] show ?thesis
      by (simp add: help_answer_def)
  qed
qed

lemma outcomes_tool:
  "attempt_outcomes help_shell [''tool --help'', ''tool -h'', ''help tool''] demo_host
     = [Inr \<lparr>returncode = 2, stdout = '''', stderr = ''tool: bad option --help''\<rparr>,
        Inr \<lparr>returncode = 0, stdout = ''usage: tool [-h]'', stderr = ''''\<rparr>,
        Inr \<lparr>returncode = 0, stdout = '''', stderr = ''''\<rparr>]"
  by (simp add: subprocess_run_def help_shell_def demo_host_def)

section \<open>The denylist\<close>

text \<open>
  Claim C1. When the first whitespace-delimited token of the command line is an entry of
  \<open>dangerous_commands\<close>, \<open>run_command_safe\<close> returns
  \<open>Refused("Command blocked for safety reasons")\<close> and leaves the host as it was: no
  subprocess is spawned. Every entry of the list is the first token of itself and of
  itself followed by a space and any arguments. Conversely, a command line whose first
  token is not in the list (or that has no token) is never \<open>Refused\<close>, whatever its
  later tokens are.
\<close>

theorem denylist_refuses:
  "(index0 (str_split command) = Inr base_cmd \<and> base_cmd \<in> set dangerous_commands
      \<longrightarrow> run_command_safe sh command timeout h
            = (Inr (Refused ''Command blocked for safety reasons''), h))
   \<and> (name \<in> set dangerous_commands
      \<longrightarrow> run_command_safe sh name timeout h
            = (Inr (Refused ''Command blocked for safety reasons''), h)
          \<and> run_command_safe sh (name @ '' '' @ args) timeout h
            = (Inr (Refused ''Command blocked for safety reasons''), h))
   \<and> (\<not> (\<exists>b. index0 (str_split command) = Inr b \<and> b \<in> set dangerous_commands)
      \<longrightarrow> fst (run_command_safe sh command timeout h) \<noteq> Inr (Refused reason))"
proof (intro conjI impI)
  assume "index0 (str_split command) = Inr base_cmd \<and> base_cmd \<in> set dangerous_commands"
  then show "run_command_safe sh command timeout h
               = (Inr (Refused ''Command blocked for safety reasons''), h)"
    by (simp add: run_refused Refused_def)
next
  assume d: "name \<in> set dangerous_commands"
  then have "name \<noteq> []" and "list_all (\<lambda>c. \<not> isspace c) name"
    by (simp_all add: dangerous_names_plain)
  then have "index0 (str_split name) = Inr name"
    and "index0 (str_split (name @ '' '' @ args)) = Inr name"
    by (simp_all add: str_split_token index0_def)
  with d show "run_command_safe sh name timeout h
                 = (Inr (Refused ''Command blocked for safety reasons''), h)"
    and "run_command_safe sh (name @ '' '' @ args) timeout h
                 = (Inr (Refused ''Command blocked for safety reasons''), h)"
    by (simp_all add: run_refused Refused_def)
next
  assume free: "\<not> (\<exists>b. index0 (str_split command) = Inr b \<and> b \<in> set dangerous_commands)"
  show "fst (run_command_safe sh command timeout h) \<noteq> Inr (Refused reason)"
  proof (cases "index0 (str_split command)")
    case (Inl e)
    then show ?thesis by (simp add: run_blank Refused_def)
  next
    case (Inr b)
    with free have nd: "b \<notin> set dangerous_commands" by simp
    from run_spawned [OF Inr nd, of sh timeout h] show ?thesis
      by (simp add: Refused_def split: sum.splits)
  qed
qed

theorem denylist_refuses_witness:
  "run_command_safe demo_shell ''rm -rf /'' 10 demo_host
     = (Inr (Refused ''Command blocked for safety reasons''), demo_host)
   \<and> run_command_safe demo_shell ''rm'' 10 demo_host
     = (Inr (Refused ''Command blocked for safety reasons''), demo_host)
   \<and> fst (run_command_safe demo_shell ''echo rm'' 10 demo_host) = Inr (Ok ''rm'' '''')
   \<and> fst (run_command_safe demo_shell ''echo rm'' 10 demo_host)
     \<noteq> Inr (Refused ''Command blocked for safety reasons'')"
proof -
  have d: "''rm'' \<in> set dangerous_commands" by (simp add: dangerous_commands_def)
  have e: "str_split ''echo rm'' = [''echo'', ''rm'']"
    by (simp add: str_split.simps isspace_def)
  have n: "\<not> (\<exists>b. index0 (str_split ''echo rm'') = Inr b \<and> b \<in> set dangerous_commands)"
    by (simp add: e index0_def dangerous_commands_def)
  have o: "fst (run_command_safe demo_shell ''echo rm'' 10 demo_host) = Inr (Ok ''rm'' '''')"
    by (simp add: run_command_safe_def run_command_try_def e index0_def dangerous_commands_def
        add_safe_flags_def safe_commands_def subprocess_run_def demo_shell_def Ok_def)
  from denylist_refuses [of "''rm -rf /''" "''rm''" demo_shell 10 demo_host "''rm''" "''-rf /''"] d
    denylist_refuses [of "''rm''" "''rm''" demo_shell 10 demo_host "''rm''" "[]"]
    denylist_refuses [of "''echo rm''" "[]" demo_shell 10 demo_host "[]" "[]"
      "''Command blocked for safety reasons''"] n o
  show ?thesis by simp
qed

section \<open>Safe flags\<close>

text \<open>
  Claim C2. For a command line whose program name (first token) is a key of
  \<open>safe_commands\<close>: when the whole command line equals the bare name, the command that
  is run is the mapped form, which differs from what was given; when it does not, the
  command that is run is the command line itself, unmodified. So \<open>ls\<close> runs
  \<open>ls -la\<close> and \<open>ls -1\<close> runs \<open>ls -1\<close>.
\<close>

theorem safe_flags_only_for_bare_name:
  assumes "safe_commands name = Some safe" and "index0 (str_split command) = Inr name"
  shows "(command = name \<longrightarrow>
            spawned (snd (run_command_safe sh command timeout h)) = spawned h @ [(safe, timeout)]
            \<and> safe \<noteq> command)
       \<and> (command \<noteq> name \<longrightarrow>
            spawned (snd (run_command_safe sh command timeout h)) = spawned h @ [(command, timeout)])"
proof -
  from assms(1) have nd: "name \<notin> set dangerous_commands" and ne: "safe \<noteq> name"
    by (simp_all add: safe_commands_not_dangerous)
  have "spawned (snd (run_command_safe sh command timeout h))
          = spawned h @ [(add_safe_flags name command, timeout)]"
    by (simp add: run_spawned [OF assms(2) nd])
  with assms(1) ne show ?thesis
    by (auto simp: add_safe_flags_def)
qed

theorem safe_flags_only_for_bare_name_witness:
  "safe_commands ''ls'' = Some ''ls -la''
   \<and> index0 (str_split ''ls'') = Inr ''ls'' \<and> index0 (str_split ''ls -1'') = Inr ''ls''
   \<and> spawned (snd (run_command_safe demo_shell ''ls'' 10 demo_host)) = [(''ls -la'', 10)]
   \<and> spawned (snd (run_command_safe demo_shell ''ls -1'' 10 demo_host)) = [(''ls -1'', 10)]"
proof -
  have m: "safe_commands ''ls'' = Some ''ls -la''" by (simp add: safe_commands_def)
  have a: "index0 (str_split ''ls'') = Inr ''ls''"
    by (simp add: str_split.simps isspace_def index0_def)
  have b: "index0 (str_split ''ls -1'') = Inr ''ls''"
    by (simp add: str_split.simps isspace_def index0_def)
  from safe_flags_only_for_bare_name [OF m a, of demo_shell 10 demo_host]
    safe_flags_only_for_bare_name [OF m b, of demo_shell 10 demo_host] m a b
  show ?thesis by (simp add: demo_host_def)
qed

section \<open>Result mapping\<close>




text \<open>
  Claim C4. For a command line that the denylist does not refuse: when running the
  subprocess raises \<open>TimeoutExpired\<close> the result is \<open>Failed("Command timed out")\<close>,
  and when it raises any other exception \<open>e\<close> of class \<open>Exception\<close> the result is
  \<open>Failed("Error: " + str(e))\<close>. There is no other \<open>Failed\<close> outcome: every
  \<open>Failed\<close> result comes from an exception of class \<open>Exception\<close> raised in the
  call, by the subprocess or by \<open>command.split()[0]\<close>, with the message built in one
  of these two ways.
\<close>

theorem failed_outcomes:
  assumes "\<not> (\<exists>b. index0 (str_split command) = Inr b \<and> b \<in> set dangerous_commands)"
  shows "(index0 (str_split command) = Inr base_cmd
            \<and> sh (world h) (add_safe_flags base_cmd command) timeout = (Inl e, w')
            \<and> is_Exception (exn_class_of e)
          \<longrightarrow> fst (run_command_safe sh command timeout h)
                = Inr (Failed (if exn_class_of e = TimeoutExpired then ''Command timed out''
                               else ''Error: '' @ str e)))
       \<and> (fst (run_command_safe sh command timeout h) = Inr (Failed message)
          \<longrightarrow> (\<exists>x. (index0 (str_split command) = Inl x
                      \<or> (\<exists>b w. index0 (str_split command) = Inr b
                            \<and> sh (world h) (add_safe_flags b command) timeout = (Inl x, w)))
                    \<and> is_Exception (exn_class_of x)
                    \<and> message = (if exn_class_of x = TimeoutExpired then ''Command timed out''
                                 else ''Error: '' @ str x)))"
proof (intro conjI impI)
  assume a: "index0 (str_split command) = Inr base_cmd
            \<and> sh (world h) (add_safe_flags base_cmd command) timeout = (Inl e, w')
            \<and> is_Exception (exn_class_of e)"
  with assms have nd: "base_cmd \<notin> set dangerous_commands" by blast
  from a show "fst (run_command_safe sh command timeout h)
                = Inr (Failed (if exn_class_of e = TimeoutExpired then ''Command timed out''
                               else ''Error: '' @ str e))"
    by (simp add: run_spawned [OF _ nd] Failed_def)
next
  assume f: "fst (run_command_safe sh command timeout h) = Inr (Failed message)"
  show "\<exists>x. (index0 (str_split command) = Inl x
                      \<or> (\<exists>b w. index0 (str_split command) = Inr b
                            \<and> sh (world h) (add_safe_flags b command) timeout = (Inl x, w)))
                    \<and> is_Exception (exn_class_of x)
                    \<and> message = (if exn_class_of x = TimeoutExpired then ''Command timed out''
                                 else ''Error: '' @ str x)"
  proof (cases "index0 (str_split command)")
    case (Inl x)
    then have x: "x = Raise IndexError ''list index out of range''" by (simp add: index0_Inl)
    from f have "message = ''Error: list index out of range''"
      by (simp add: run_blank [OF Inl] Failed_def)
    with Inl x show ?thesis by auto
  next
    case (Inr b)
    with assms have nd: "b \<notin> set dangerous_commands" by blast
    obtain r w where rw: "sh (world h) (add_safe_flags b command) timeout = (r, w)"
      by (cases "sh (world h) (add_safe_flags b command) timeout")
    show ?thesis
    proof (cases r)
      case (Inl x)
      with f rw have "is_Exception (exn_class_of x)
          \<and> message = (if exn_class_of x = TimeoutExpired then ''Command timed out''
                       else ''Error: '' @ str x)"
        by (cases "exn_class_of x")
          (simp_all add: run_spawned [OF Inr nd] Failed_def)
      with Inr rw Inl show ?thesis by blast
    next
      case (Inr result)
      with f rw \<open>index0 (str_split command) = Inr b\<close> nd show ?thesis
        by (simp add: run_spawned [of command b] Failed_def)
    qed
  qed
qed

theorem failed_outcomes_witness:
  "index0 (str_split ''sleep 60'') = Inr ''sleep''
   \<and> ''sleep'' \<notin> set dangerous_commands
   \<and> demo_shell (world demo_host) (add_safe_flags ''sleep'' ''sleep 60'') 10
       = (Inl (Raise TimeoutExpired ''Command 'sleep 60' timed out''), 1)
   \<and> fst (run_command_safe demo_shell ''sleep 60'' 10 demo_host)
       = Inr (Failed ''Command timed out'')
   \<and> demo_shell (world demo_host) (add_safe_flags [CHR 0x00] [CHR 0x00]) 10
       = (Inl (Raise OtherError ''embedded null byte''), 0)
   \<and> fst (run_command_safe demo_shell [CHR 0x00] 10 demo_host)
       = Inr (Failed ''Error: embedded null byte'')"
proof -
  have a: "index0 (str_split ''sleep 60'') = Inr ''sleep''"
    by (simp add: str_split.simps isspace_def index0_def)
  have b: "''sleep'' \<notin> set dangerous_commands" by (simp add: dangerous_commands_def)
  have c: "demo_shell (world demo_host) (add_safe_flags ''sleep'' ''sleep 60'') 10
             = (Inl (Raise TimeoutExpired ''Command 'sleep 60' timed out''), 1)"
    by (simp add: add_safe_flags_def safe_commands_def demo_shell_def demo_host_def)
  have a': "index0 (str_split [CHR 0x00]) = Inr [CHR 0x00]"
    by (simp add: str_split.simps isspace_def index0_def)
  have b': "[CHR 0x00] \<notin> set dangerous_commands" by (simp add: dangerous_commands_def)
  have c': "demo_shell (world demo_host) (add_safe_flags [CHR 0x00] [CHR 0x00]) 10
              = (Inl (Raise OtherError ''embedded null byte''), 0)"
    by (simp add: add_safe_flags_def safe_commands_def demo_shell_def demo_host_def)
  have n: "\<not> (\<exists>x. index0 (str_split ''sleep 60'') = Inr x \<and> x \<in> set dangerous_commands)"
    using a b by simp
  have n': "\<not> (\<exists>x. index0 (str_split [CHR 0x00]) = Inr x \<and> x \<in> set dangerous_commands)"
    using a' b' by simp
  have k: "is_Exception (exn_class_of (Raise TimeoutExpired ''Command 'sleep 60' timed out''))"
    by simp
  have k': "is_Exception (exn_class_of (Raise OtherError ''embedded null byte''))"
    by simp
  note failed_outcomes [OF n, of "''sleep''" demo_shell demo_host 10
      "Raise TimeoutExpired ''Command 'sleep 60' timed out''" 1, THEN conjunct1, rule_format]
  from this [OF conjI [OF a conjI [OF c k]]]
  have t: "fst (run_command_safe demo_shell ''sleep 60'' 10 demo_host)
             = Inr (Failed ''Command timed out'')"
    by simp
  note failed_outcomes [OF n', of "[CHR 0x00]" demo_shell demo_host 10
      "Raise OtherError ''embedded null byte''" 0, THEN conjunct1, rule_format]
  from this [OF conjI [OF a' conjI [OF c' k']]]
  have "fst (run_command_safe demo_shell [CHR 0x00] 10 demo_host)
          = Inr (Failed ''Error: embedded null byte'')"
    by simp
  with a b c c' t show ?thesis by simp
qed

section \<open>What leaves the function\<close>




section \<open>Blank command lines\<close>

text \<open>
  Claim C9. For an empty or whitespace-only command line, \<open>command.split()[0]\<close> raises
  the IndexError, the generic handler catches it, and the call returns
  \<open>Failed("Error: list index out of range")\<close>; it neither refuses nor spawns a
  subprocess: the host (world and log of spawned processes) is unchanged.
\<close>

theorem run_command_safe_blank:
  assumes "list_all isspace command"
  shows "run_command_try sh command timeout h
           = (Inl (Raise IndexError ''list index out of range''), h)
       \<and> run_command_safe sh command timeout h
           = (Inr (Failed ''Error: list index out of range''), h)
       \<and> fst (run_command_safe sh command timeout h) \<noteq> Inr (Refused reason)"
  using index0_blank [OF assms]
  by (simp add: run_blank run_command_try_def Failed_def Refused_def)

theorem run_command_safe_blank_witness:
  "list_all isspace [] \<and> list_all isspace [CHR '' '', CHR 0x09]
   \<and> run_command_safe demo_shell [] 10 demo_host
       = (Inr (Failed ''Error: list index out of range''), demo_host)
   \<and> run_command_safe demo_shell [CHR '' '', CHR 0x09] 10 demo_host
       = (Inr (Failed ''Error: list index out of range''), demo_host)"
proof -
  have a: "list_all isspace []" by simp
  have b: "list_all isspace [CHR '' '', CHR 0x09]" by (simp add: isspace_def)
  from run_command_safe_blank [OF a, of demo_shell 10 demo_host]
    run_command_safe_blank [OF b, of demo_shell 10 demo_host] a b
  show ?thesis by simp
qed

section \<open>The slots of the tuple\<close>

text \<open>
  Claim C10. In the tuple \<open>(success, stdout, stderr)\<close>, a refusal by the denylist has
  \<open>success = False\<close>, its reason in the second slot (stdout) and an empty third slot
  (stderr); a timeout or any other error of the subprocess has \<open>success = False\<close>, an
  empty second slot and its non-empty message in the third.
\<close>

theorem failure_message_slots:
  "(index0 (str_split command) = Inr base_cmd \<and> base_cmd \<in> set dangerous_commands
      \<longrightarrow> fst (run_command_safe sh command timeout h)
            = Inr (False, ''Command blocked for safety reasons'', ''''))
   \<and> (index0 (str_split command) = Inr base_cmd \<and> base_cmd \<notin> set dangerous_commands
        \<and> sh (world h) (add_safe_flags base_cmd command) timeout = (Inl e, w')
        \<and> is_Exception (exn_class_of e)
      \<longrightarrow> fst (run_command_safe sh command timeout h)
            = Inr (False, '''',
                   if exn_class_of e = TimeoutExpired then ''Command timed out''
                   else ''Error: '' @ str e)
          \<and> (if exn_class_of e = TimeoutExpired then ''Command timed out''
              else ''Error: '' @ str e) \<noteq> '''')"
proof (intro conjI impI)
  assume "index0 (str_split command) = Inr base_cmd \<and> base_cmd \<in> set dangerous_commands"
  then show "fst (run_command_safe sh command timeout h)
            = Inr (False, ''Command blocked for safety reasons'', '''')"
    by (simp add: run_refused)
next
  assume a: "index0 (str_split command) = Inr base_cmd \<and> base_cmd \<notin> set dangerous_commands
        \<and> sh (world h) (add_safe_flags base_cmd command) timeout = (Inl e, w')
        \<and> is_Exception (exn_class_of e)"
  then show "fst (run_command_safe sh command timeout h)
            = Inr (False, '''',
                   if exn_class_of e = TimeoutExpired then ''Command timed out''
                   else ''Error: '' @ str e)"
    by (simp add: run_spawned [of command base_cmd])
next
  show "(if exn_class_of e = TimeoutExpired then ''Command timed out''
         else ''Error: '' @ str e) \<noteq> ''''"
    by simp
qed

theorem failure_message_slots_witness:
  "fst (run_command_safe demo_shell ''rm -rf /'' 10 demo_host)
     = Inr (False, ''Command blocked for safety reasons'', '''')
   \<and> fst (run_command_safe demo_shell ''sleep 60'' 10 demo_host)
     = Inr (False, '''', ''Command timed out'')"
proof -
  have a: "index0 (str_split ''rm -rf /'') = Inr ''rm''"
    by (simp add: str_split.simps isspace_def index0_def)
  have b: "''rm'' \<in> set dangerous_commands" by (simp add: dangerous_commands_def)
  have c: "index0 (str_split ''sleep 60'') = Inr ''sleep''"
    by (simp add: str_split.simps isspace_def index0_def)
  have d: "''sleep'' \<notin> set dangerous_commands" by (simp add: dangerous_commands_def)
  have e: "demo_shell (world demo_host) (add_safe_flags ''sleep'' ''sleep 60'') 10
             = (Inl (Raise TimeoutExpired ''Command 'sleep 60' timed out''), 1)"
    by (simp add: add_safe_flags_def safe_commands_def demo_shell_def demo_host_def)
  from failure_message_slots [of "''rm -rf /''" "''rm''" demo_shell 10 demo_host] a b
  have r: "fst (run_command_safe demo_shell ''rm -rf /'' 10 demo_host)
     = Inr (False, ''Command blocked for safety reasons'', '''')"
    by simp
  from failure_message_slots [of "''sleep 60''" "''sleep''" demo_shell 10 demo_host
      "Raise TimeoutExpired ''Command 'sleep 60' timed out''" 1] c d e
  have "fst (run_command_safe demo_shell ''sleep 60'' 10 demo_host)
     = Inr (False, '''', ''Command timed out'')"
    by simp
  with r show ?thesis by simp
qed

section \<open>The catalog\<close>

text \<open>
  Claim C6. A catalog returned by \<open>get_bin_commands\<close> is sorted in the lexicographic
  order of strings, has no duplicate, and every name in it is an entry of the listing of
  one of the five candidate directories, which exists, whose path joined with the name is
  a regular file (\<open>os.path.isfile\<close>) that the process may execute
  (\<open>os.access(path, os.X_OK)\<close>).
\<close>

theorem catalog_sorted_distinct_executable:
  assumes "get_bin_commands fs = Inr catalog"
  shows "sorted catalog \<and> distinct catalog
       \<and> (\<forall>name \<in> set catalog. \<exists>d \<in> set bin_paths. \<exists>items.
             path_exists fs d \<and> listdir fs d = Inr items \<and> name \<in> set items
             \<and> isfile fs (path_join d name) \<and> access_x fs (path_join d name))"
proof -
  from assms obtain res where scan: "scan_bin_paths fs bin_paths {} = Inr res"
    and cat: "catalog = sorted_list_of_set res"
    by (auto simp: get_bin_commands_def split: sum.splits)
  have fin: "finite res" using scan_bin_paths_finite [OF scan] by simp
  have "set catalog = res" using cat fin by simp
  with scan_bin_paths_Inr [OF scan] cat show ?thesis by auto
qed

theorem catalog_sorted_distinct_executable_witness:
  "get_bin_commands demo_fs = Inr [''awk'', ''cat'', ''ls'']
   \<and> sorted [''awk'', ''cat'', ''ls''] \<and> distinct [''awk'', ''cat'', ''ls'']"
proof -
  have g: "get_bin_commands demo_fs = Inr [''awk'', ''cat'', ''ls'']"
    by code_simp
  from catalog_sorted_distinct_executable [OF g] g show ?thesis by simp
qed

text \<open>
  Claim C7, as stated: \<open>get_bin_commands\<close> never fails, for any state of the file
  system. It does: the only handler is \<open>except PermissionError\<close>, so when
  \<open>/bin\<close> exists and is not a directory, the \<open>NotADirectoryError\<close> of
  \<open>os.listdir\<close> leaves the function.
\<close>

theorem discover_fails_counterexample:
  "get_bin_commands notdir_fs = Inl (Raise OtherError ''[Errno 20] Not a directory'')"
  by (simp add: get_bin_commands_def bin_paths_def notdir_fs_def)

text \<open>
  Claim C7, amended. When every candidate directory that exists can be listed or raises
  \<open>PermissionError\<close> on listing, \<open>get_bin_commands\<close> returns a catalog: its names
  are exactly the executable regular files of the directories that exist and can be
  listed, so a directory that does not exist and a directory whose listing is denied are
  skipped without an error; when no directory can be listed the catalog is empty.
\<close>

theorem discover_best_effort:
  assumes "\<forall>d \<in> set bin_paths. \<forall>e. path_exists fs d \<and> listdir fs d = Inl e
             \<longrightarrow> exn_class_of e = PermissionError"
  shows "\<exists>catalog. get_bin_commands fs = Inr catalog
           \<and> set catalog = {name. \<exists>d \<in> set bin_paths. \<exists>items.
                 path_exists fs d \<and> listdir fs d = Inr items \<and> name \<in> set items
                 \<and> isfile fs (path_join d name) \<and> access_x fs (path_join d name)}
           \<and> ((\<forall>d \<in> set bin_paths. \<not> path_exists fs d \<or> (\<exists>e. listdir fs d = Inl e))
                \<longrightarrow> catalog = [])"
proof -
  from scan_bin_paths_total [OF assms] obtain res where
    scan: "scan_bin_paths fs bin_paths {} = Inr res" by blast
  have fin: "finite res" using scan_bin_paths_finite [OF scan] by simp
  let ?cat = "sorted_list_of_set res"
  have g: "get_bin_commands fs = Inr ?cat" by (simp add: get_bin_commands_def scan)
  have s: "set ?cat = {name. \<exists>d \<in> set bin_paths. \<exists>items.
                 path_exists fs d \<and> listdir fs d = Inr items \<and> name \<in> set items
                 \<and> isfile fs (path_join d name) \<and> access_x fs (path_join d name)}"
    using scan_bin_paths_Inr [OF scan] fin by simp
  have "?cat = []"
    if "\<forall>d \<in> set bin_paths. \<not> path_exists fs d \<or> (\<exists>e. listdir fs d = Inl e)"
  proof -
    from that s have "set ?cat = {}" by auto
    then show ?thesis by simp
  qed
  with g s show ?thesis by blast
qed

theorem discover_best_effort_witness:
  "get_bin_commands denied_fs = Inr []
   \<and> (\<exists>catalog. get_bin_commands demo_fs = Inr catalog)"
proof -
  have h: "\<forall>d \<in> set bin_paths. \<forall>e. path_exists denied_fs d \<and> listdir denied_fs d = Inl e
             \<longrightarrow> exn_class_of e = PermissionError"
    by (auto simp: denied_fs_def)
  have w: "\<forall>d \<in> set bin_paths. \<not> path_exists denied_fs d \<or> (\<exists>e. listdir denied_fs d = Inl e)"
    by (simp add: denied_fs_def)
  have h': "\<forall>d \<in> set bin_paths. \<forall>e. path_exists demo_fs d \<and> listdir demo_fs d = Inl e
             \<longrightarrow> exn_class_of e = PermissionError"
    by (auto simp: demo_fs_def split: if_splits)
  from discover_best_effort [OF h] w have "get_bin_commands denied_fs = Inr []" by auto
  moreover from discover_best_effort [OF h'] have "\<exists>catalog. get_bin_commands demo_fs = Inr catalog"
    by blast
  ultimately show ?thesis by simp
qed

section \<open>The help lookup\<close>

text \<open>
  Claim C8, as stated: the result is the first non-empty captured stdout among the three
  attempts, and a stderr only when no attempt has one. It is not: \<open>tool --help\<close>
  exits with status 2 and a message on stderr, \<open>tool -h\<close> prints the usage on stdout;
  the specification's rule gives the usage, the program returns the message of the
  first attempt.
\<close>

theorem getHelp_first_stdout_counterexample:
  "fst (get_command_help help_shell ''tool'' demo_host)
     \<noteq> Inr (getHelp_spec help_shell ''tool'' demo_host)"
proof -
  have c: "fst (get_command_help help_shell ''tool'' demo_host) = Inr ''tool: bad option --help''"
    by (simp add: get_command_help_def help_options_def subprocess_run_def help_shell_def
        demo_host_def str_strip_def isspace_def)
  have s: "getHelp_spec help_shell ''tool'' demo_host = ''usage: tool [-h]''"
    using outcomes_tool by (simp add: getHelp_spec_def captured_def)
  from c s show ?thesis by simp
qed

text \<open>
  Claim C8, amended. \<open>get_command_help\<close> tries, in order, \<open>command --help\<close>,
  \<open>command -h\<close> and \<open>help command\<close>, each under the timeout 5, and stops at the
  first attempt that answers; an attempt answers with its stdout when it exited with
  status 0 and the stdout is not blank, else with its stderr when that is not blank; an
  attempt that timed out or raised another exception of class \<open>Exception\<close> does not
  answer, and an exception outside that class ends the lookup and leaves the function.
  When no attempt answers the result is \<open>No help information available\<close>. The log of
  spawned processes grows by exactly the attempts up to and including the one that
  answered.
\<close>

theorem get_command_help_first_answer:
  "fst (get_command_help sh command h)
     = (case List.map_filter help_answer
              (attempt_outcomes sh
                 [command @ '' --help'', command @ '' -h'', ''help '' @ command] h) of
          [] \<Rightarrow> Inr ''No help information available''
        | answer # _ \<Rightarrow> answer)
   \<and> spawned (snd (get_command_help sh command h))
     = spawned h @ map (\<lambda>cmd. (cmd, 5))
         (take (Suc (length (takeWhile (\<lambda>r. help_answer r = None)
                  (attempt_outcomes sh
                     [command @ '' --help'', command @ '' -h'', ''help '' @ command] h))))
            [command @ '' --help'', command @ '' -h'', ''help '' @ command])"
  using help_loop_answer [of sh command help_options h]
    help_loop_spawned [of sh command help_options h]
  by (simp add: get_command_help_def help_options_def)

theorem get_command_help_first_answer_witness:
  "fst (get_command_help help_shell ''tool'' demo_host) = Inr ''tool: bad option --help''
   \<and> spawned (snd (get_command_help help_shell ''tool'' demo_host)) = [(''tool --help'', 5)]
   \<and> fst (get_command_help help_shell ''slow'' demo_host) = Inr ''slow: usage''
   \<and> spawned (snd (get_command_help help_shell ''slow'' demo_host))
       = [(''slow --help'', 5), (''slow -h'', 5), (''help slow'', 5)]
   \<and> fst (get_command_help help_shell ''quiet'' demo_host)
       = Inr ''No help information available''
   \<and> fst (get_command_help help_shell ''stuck'' demo_host) = Inl (Raise KeyboardInterrupt '''')
   \<and> spawned (snd (get_command_help help_shell ''stuck'' demo_host))
       = [(''stuck --help'', 5), (''stuck -h'', 5)]"
  using get_command_help_first_answer [of help_shell "''tool''" demo_host]
    get_command_help_first_answer [of help_shell "''slow''" demo_host]
    get_command_help_first_answer [of help_shell "''quiet''" demo_host]
    get_command_help_first_answer [of help_shell "''stuck''" demo_host]
  by (simp add: subprocess_run_def help_shell_def demo_host_def List.map_filter_simps
      help_answer_def str_strip_def isspace_def)

end
